theory Spec2Isabelle
  imports Complex_Main "HOL-Library.Word"
begin

section \<open>Package maybe of phomola/gomisc\<close>

text \<open>
  The Go package \<^verbatim>\<open>maybe\<close> (file \<^verbatim>\<open>maybe/maybe.go\<close>) defines the generic struct
  \<^verbatim>\<open>Maybe[T]\<close> with the exported fields \<^verbatim>\<open>Val T\<close> and \<^verbatim>\<open>Valid bool\<close>, the
  combinators \<^verbatim>\<open>Fmap\<close>, \<^verbatim>\<open>FallibleFmap\<close>, \<^verbatim>\<open>Bind\<close>, \<^verbatim>\<open>Join\<close>, the non-generic
  interface \<^verbatim>\<open>Iface\<close> implemented by \<^verbatim>\<open>*Maybe[T]\<close>, and the JSON and
  \<^verbatim>\<open>database/sql\<close> hooks.

  Conventions of the embedding:
  \<^item> \<^verbatim>\<open>Maybe[T]\<close> is the record \<open>'a Maybe\<close>. Equality of records compares both
    fields, the payloads as values; the equality of optionals that the
    specification's laws use is \<open>maybe_eq\<close> below.
  \<^item> Go's zero value of a type parameter cannot be computed from a HOL type, so
    every function that builds \<^verbatim>\<open>Maybe[U]{}\<close> or \<^verbatim>\<open>var x T\<close> takes that zero
    value as its first argument.
  \<^item> A method with a pointer receiver takes the receiver's state and returns the
    state after the call next to its results.
  \<^item> A Go \<^verbatim>\<open>error\<close> result is an \<open>error option\<close> (\<open>None\<close> is \<^verbatim>\<open>nil\<close>); a run-time
    panic is the left summand of \<open>panic + _\<close>.
  \<^item> Functions of the standard library that the package calls
    (\<^verbatim>\<open>json.Marshal\<close>, \<^verbatim>\<open>json.Unmarshal\<close>, \<^verbatim>\<open>sql.Null[T].Scan\<close>, the
    \<^verbatim>\<open>Value\<close> method of a payload implementing \<^verbatim>\<open>driver.Valuer\<close>) are
    parameters of the functions that call them.
\<close>

subsection \<open>The struct and its constructors\<close>

record 'a Maybe =
  Val :: 'a
  Valid :: bool

text \<open>Go \<^verbatim>\<open>error\<close> values: an error built from a message, the
  \<^verbatim>\<open>*json.UnmarshalTypeError\<close> of \<^verbatim>\<open>encoding/json\<close> with its fields \<^verbatim>\<open>Value\<close> and
  \<^verbatim>\<open>Type\<close>, and its \<^verbatim>\<open>*json.SyntaxError\<close>.\<close>

datatype error = Error string | UnmarshalTypeError string string | SyntaxError

text \<open>\<^verbatim>\<open>func Identity[T any](x T) T\<close>\<close>

definition Identity :: "'a \<Rightarrow> 'a" where
  "Identity x = x"

text \<open>\<^verbatim>\<open>func Unit[T any](x T) Maybe[T] { return Maybe[T]{Val: x, Valid: true} }\<close>\<close>

definition Unit :: "'a \<Rightarrow> 'a Maybe" where
  "Unit x = \<lparr>Val = x, Valid = True\<rparr>"

text \<open>\<^verbatim>\<open>func Nothing[T any]() Maybe[T] { return Maybe[T]{} }\<close>; \<open>z\<close> is the zero value
  of \<^verbatim>\<open>T\<close>.\<close>

definition Nothing :: "'a \<Rightarrow> 'a Maybe" where
  "Nothing z = \<lparr>Val = z, Valid = False\<rparr>"

text \<open>\<^verbatim>\<open>func New[T any](x *T) Maybe[T]\<close>; the pointer argument is \<open>None\<close> for
  \<^verbatim>\<open>nil\<close> and \<open>Some v\<close> for a pointer whose pointee is \<open>v\<close>.\<close>

definition New :: "'a \<Rightarrow> 'a option \<Rightarrow> 'a Maybe" where
  "New z x = (case x of None \<Rightarrow> Nothing z | Some v \<Rightarrow> Unit v)"

text \<open>\<^verbatim>\<open>func (m Maybe[T]) GetOr(defVal T) T\<close>\<close>

definition GetOr :: "'a Maybe \<Rightarrow> 'a \<Rightarrow> 'a" where
  "GetOr m defVal = (if Valid m then Val m else defVal)"

text \<open>\<^verbatim>\<open>func (m Maybe[T]) GetOrZero() T\<close>\<close>

definition GetOrZero :: "'a \<Rightarrow> 'a Maybe \<Rightarrow> 'a" where
  "GetOrZero z m = (if Valid m then Val m else z)"

subsection \<open>Equality of optionals in the specification\<close>

text \<open>The specification states its laws with \<^verbatim>\<open>==\<close> on optionals and says of the
  payload slot that it is meaningful only when the optional is present, that it
  is unspecified for an empty optional, and that it is logically ignored once a
  setter has marked the optional empty. \<open>maybe_eq\<close> is that equality: two
  optionals are equal when both are empty, or both are present with the same
  payload. Equality of records, \<open>=\<close>, compares the payload slot of an empty
  optional too and implies \<open>maybe_eq\<close>.\<close>

definition maybe_eq :: "'a Maybe \<Rightarrow> 'a Maybe \<Rightarrow> bool" where
  "maybe_eq m n = (if Valid m then Valid n \<and> Val m = Val n else \<not> Valid n)"

subsection \<open>Combinators\<close>

text \<open>\<^verbatim>\<open>func Fmap[T, U any](f func(T) U, x Maybe[T]) Maybe[U]\<close>; \<open>zU\<close> is the zero
  value of \<^verbatim>\<open>U\<close>, the payload of \<^verbatim>\<open>Maybe[U]{}\<close>.\<close>

definition Fmap :: "'b \<Rightarrow> ('a \<Rightarrow> 'b) \<Rightarrow> 'a Maybe \<Rightarrow> 'b Maybe" where
  "Fmap zU f x =
     (if \<not> Valid x then \<lparr>Val = zU, Valid = False\<rparr>
      else \<lparr>Val = f (Val x), Valid = True\<rparr>)"

text \<open>\<^verbatim>\<open>func FallibleFmap[T, U any](f func(T) (U, error), x Maybe[T]) (Maybe[U], error)\<close>.
  The Go function \<^verbatim>\<open>f\<close> returns a pair; the first component is dropped when the
  error is not \<^verbatim>\<open>nil\<close>.\<close>

definition FallibleFmap ::
  "'b \<Rightarrow> ('a \<Rightarrow> 'b \<times> error option) \<Rightarrow> 'a Maybe \<Rightarrow> 'b Maybe \<times> error option" where
  "FallibleFmap zU f x =
     (if \<not> Valid x then (\<lparr>Val = zU, Valid = False\<rparr>, None)
      else (case f (Val x) of
              (y, Some err) \<Rightarrow> (\<lparr>Val = zU, Valid = False\<rparr>, Some err)
            | (y, None) \<Rightarrow> (\<lparr>Val = y, Valid = True\<rparr>, None)))"

text \<open>\<^verbatim>\<open>func Bind[T, U any](f func(T) Maybe[U], x Maybe[T]) Maybe[U]\<close>\<close>

definition Bind :: "'b \<Rightarrow> ('a \<Rightarrow> 'b Maybe) \<Rightarrow> 'a Maybe \<Rightarrow> 'b Maybe" where
  "Bind zU f x = (if \<not> Valid x then \<lparr>Val = zU, Valid = False\<rparr> else f (Val x))"

text \<open>\<^verbatim>\<open>func Join[T any](x Maybe[Maybe[T]]) Maybe[T]\<close>\<close>

definition Join :: "'a \<Rightarrow> 'a Maybe Maybe \<Rightarrow> 'a Maybe" where
  "Join z x = Bind z Identity x"

subsection \<open>Dynamic values: \<^verbatim>\<open>interface{}\<close> and \<^verbatim>\<open>reflect.Type\<close>\<close>

text \<open>
  The bridge \<^verbatim>\<open>Iface\<close> and the method \<^verbatim>\<open>Value\<close> inspect the run-time type of a
  payload. For them the payload is a Go value that carries its type: the built-in
  numeric types that \<^verbatim>\<open>Value\<close> distinguishes, \<^verbatim>\<open>bool\<close>, \<^verbatim>\<open>string\<close>, values of
  named (defined) types, and the \<^verbatim>\<open>nil\<close> interface value. A payload type can
  also be an interface type: \<^verbatim>\<open>any\<close>, an interface type given by its name
  (\<^verbatim>\<open>error\<close>, \<^verbatim>\<open>fmt.Stringer\<close>), or a defined type whose underlying type is an
  interface type. \<^verbatim>\<open>int\<close>, \<^verbatim>\<open>uint\<close> and
  \<^verbatim>\<open>uintptr\<close> are 64 bits wide (a 64-bit target). A floating-point value is
  represented by what it denotes; every \<^verbatim>\<open>float32\<close> is a \<^verbatim>\<open>float64\<close>, so the
  conversion \<^verbatim>\<open>float64(v)\<close> keeps the denotation.
\<close>

datatype gofloat = Finite real | PosInf | NegInf | NaN

datatype gotype =
    TInt | TUint | TInt8 | TInt16 | TInt32 | TInt64
  | TUint8 | TUint16 | TUint32 | TUint64 | TUintptr
  | TFloat32 | TFloat64 | TBool | TString
  | TAny
  | TInterface string
  | TNamed string gotype

datatype goval =
    VNil
  | VInt "64 word" | VUint "64 word"
  | VInt8 "8 word" | VInt16 "16 word" | VInt32 "32 word" | VInt64 "64 word"
  | VUint8 "8 word" | VUint16 "16 word" | VUint32 "32 word" | VUint64 "64 word"
  | VUintptr "64 word"
  | VFloat32 gofloat | VFloat64 gofloat
  | VBool bool | VString string
  | VNamed string goval

text \<open>The dynamic type of an interface value; the \<^verbatim>\<open>nil\<close> interface has none.
  \<open>VNamed n v\<close> is a value of the defined type \<open>n\<close> whose underlying value is \<open>v\<close>.\<close>

fun type_of :: "goval \<Rightarrow> gotype option" where
  "type_of VNil = None"
| "type_of (VInt _) = Some TInt"
| "type_of (VUint _) = Some TUint"
| "type_of (VInt8 _) = Some TInt8"
| "type_of (VInt16 _) = Some TInt16"
| "type_of (VInt32 _) = Some TInt32"
| "type_of (VInt64 _) = Some TInt64"
| "type_of (VUint8 _) = Some TUint8"
| "type_of (VUint16 _) = Some TUint16"
| "type_of (VUint32 _) = Some TUint32"
| "type_of (VUint64 _) = Some TUint64"
| "type_of (VUintptr _) = Some TUintptr"
| "type_of (VFloat32 _) = Some TFloat32"
| "type_of (VFloat64 _) = Some TFloat64"
| "type_of (VBool _) = Some TBool"
| "type_of (VString _) = Some TString"
| "type_of (VNamed n v) = map_option (TNamed n) (type_of v)"

text \<open>Interface types. The dynamic type of a value is never one of them.\<close>

fun is_interface :: "gotype \<Rightarrow> bool" where
  "is_interface TAny = True"
| "is_interface (TInterface i) = True"
| "is_interface (TNamed n t) = is_interface t"
| "is_interface _ = False"

text \<open>Whether the type \<open>t\<close> implements the interface type \<open>T\<close>. Every type
  implements \<^verbatim>\<open>any\<close>; for an interface type given by its name the method sets
  decide, and they are declared outside this package: \<open>impl t i\<close> says whether
  the type \<open>t\<close> has the methods of the interface named \<open>i\<close>.\<close>

fun implements :: "(gotype \<Rightarrow> string \<Rightarrow> bool) \<Rightarrow> gotype \<Rightarrow> gotype \<Rightarrow> bool" where
  "implements impl t TAny = True"
| "implements impl t (TInterface i) = impl t i"
| "implements impl t (TNamed n T) = implements impl t T"
| "implements impl t _ = False"

text \<open>The zero value of a type, as \<^verbatim>\<open>var x T\<close> gives it; for an interface type
  it is \<^verbatim>\<open>nil\<close>.\<close>

fun zero_of :: "gotype \<Rightarrow> goval" where
  "zero_of TInt = VInt 0"
| "zero_of TUint = VUint 0"
| "zero_of TInt8 = VInt8 0"
| "zero_of TInt16 = VInt16 0"
| "zero_of TInt32 = VInt32 0"
| "zero_of TInt64 = VInt64 0"
| "zero_of TUint8 = VUint8 0"
| "zero_of TUint16 = VUint16 0"
| "zero_of TUint32 = VUint32 0"
| "zero_of TUint64 = VUint64 0"
| "zero_of TUintptr = VUintptr 0"
| "zero_of TFloat32 = VFloat32 (Finite 0)"
| "zero_of TFloat64 = VFloat64 (Finite 0)"
| "zero_of TBool = VBool False"
| "zero_of TString = VString []"
| "zero_of TAny = VNil"
| "zero_of (TInterface i) = VNil"
| "zero_of (TNamed n t) = (if is_interface t then VNil else VNamed n (zero_of t))"

datatype panic =
    TypeAssertionPanic "gotype option" gotype
  | NilDereference

text \<open>The single-result type assertion \<^verbatim>\<open>x.(T)\<close>. It fails on the \<^verbatim>\<open>nil\<close>
  interface value. On a value of dynamic type \<open>t\<close> it holds, for a non-interface
  \<^verbatim>\<open>T\<close>, when \<open>t\<close> is identical to \<^verbatim>\<open>T\<close>, and for an interface type \<^verbatim>\<open>T\<close>, when
  \<open>t\<close> implements \<^verbatim>\<open>T\<close>; its value is then \<^verbatim>\<open>x\<close>. Otherwise a run-time panic
  occurs.\<close>

definition type_assert ::
  "(gotype \<Rightarrow> string \<Rightarrow> bool) \<Rightarrow> gotype \<Rightarrow> goval \<Rightarrow> panic + goval" where
  "type_assert impl T x =
     (case type_of x of
        None \<Rightarrow> Inl (TypeAssertionPanic None T)
      | Some t \<Rightarrow>
          if (if is_interface T then implements impl t T else t = T) then Inr x
          else Inl (TypeAssertionPanic (Some t) T))"

subsection \<open>The bridge \<^verbatim>\<open>Iface\<close>: methods of \<^verbatim>\<open>*Maybe[T]\<close>\<close>

text \<open>\<^verbatim>\<open>func (m *Maybe[T]) MaybeType() reflect.Type { return reflect.TypeFor[T]() }\<close>\<close>

definition MaybeType :: "gotype \<Rightarrow> goval Maybe \<Rightarrow> gotype \<times> goval Maybe" where
  "MaybeType T m = (T, m)"

text \<open>\<^verbatim>\<open>func (m *Maybe[T]) Get() (interface{}, bool)\<close>: \<^verbatim>\<open>return m.Val, true\<close> when
  valid, \<^verbatim>\<open>return nil, false\<close> otherwise. The method assigns nothing.\<close>

definition Get :: "goval Maybe \<Rightarrow> (goval \<times> bool) \<times> goval Maybe" where
  "Get m = (if Valid m then ((Val m, True), m) else ((VNil, False), m))"

text \<open>\<^verbatim>\<open>func (m *Maybe[T]) Set(x interface{}) { m.Val = x.(T); m.Valid = true }\<close>.
  The method has no result; a failed assertion panics before anything is
  assigned. \<open>impl\<close> is the parameter of \<open>type_assert\<close>.\<close>

definition Set ::
  "(gotype \<Rightarrow> string \<Rightarrow> bool) \<Rightarrow> gotype \<Rightarrow> goval Maybe \<Rightarrow> goval \<Rightarrow> panic + goval Maybe" where
  "Set impl T m x =
     (case type_assert impl T x of
        Inl p \<Rightarrow> Inl p
      | Inr v \<Rightarrow> Inr (m\<lparr>Val := v, Valid := True\<rparr>))"

text \<open>\<^verbatim>\<open>func (m *Maybe[T]) SetPtr(ptr unsafe.Pointer)\<close>; the argument is \<open>None\<close> for
  \<^verbatim>\<open>nil\<close> and \<open>Some v\<close> for a pointer at which \<^verbatim>\<open>*(*T)(ptr)\<close> reads \<open>v\<close>.\<close>

definition SetPtr :: "'a Maybe \<Rightarrow> 'a option \<Rightarrow> 'a Maybe" where
  "SetPtr m ptr =
     (case ptr of
        None \<Rightarrow> m\<lparr>Valid := False\<rparr>
      | Some v \<Rightarrow> m\<lparr>Valid := True, Val := v\<rparr>)"

text \<open>\<^verbatim>\<open>func (m *Maybe[T]) SetValid() { m.Valid = true }\<close>\<close>

definition SetValid :: "'a Maybe \<Rightarrow> 'a Maybe" where
  "SetValid m = m\<lparr>Valid := True\<rparr>"

subsection \<open>JSON hooks\<close>

text \<open>\<^verbatim>\<open>var null = nocopy.Bytes("null")\<close>\<close>

definition null :: string where
  "null = ''null''"

text \<open>\<^verbatim>\<open>func (m Maybe[T]) MarshalJSON() ([]byte, error)\<close>; the first argument is
  \<^verbatim>\<open>json.Marshal\<close> on the payload type.\<close>

definition MarshalJSON :: "('a \<Rightarrow> string \<times> error option) \<Rightarrow> 'a Maybe \<Rightarrow> string \<times> error option" where
  "MarshalJSON json_Marshal m = (if \<not> Valid m then (null, None) else json_Marshal (Val m))"

text \<open>\<^verbatim>\<open>func (m *Maybe[T]) UnmarshalJSON(val []byte) error\<close>; the first argument is
  \<^verbatim>\<open>json.Unmarshal(val, &m.Val)\<close>: from the bytes and the payload slot's content
  to the error and the slot's new content.\<close>

definition UnmarshalJSON ::
  "(string \<Rightarrow> 'a \<Rightarrow> error option \<times> 'a) \<Rightarrow> 'a Maybe \<Rightarrow> string \<Rightarrow> error option \<times> 'a Maybe" where
  "UnmarshalJSON json_Unmarshal m val =
     (if val = null then (None, m)
      else (let m1 = m\<lparr>Valid := True\<rparr>;
                (err, v) = json_Unmarshal val (Val m1)
            in (err, m1\<lparr>Val := v\<rparr>)))"

subsection \<open>\<^verbatim>\<open>database/sql\<close> hooks\<close>

text \<open>\<^verbatim>\<open>sql.Null[T]\<close>, the struct with the fields \<^verbatim>\<open>V T\<close> and \<^verbatim>\<open>Valid bool\<close>.\<close>

record 'a sql_Null =
  V :: 'a
  NullValid :: bool

text \<open>\<^verbatim>\<open>func (m *Maybe[T]) Scan(val any) error\<close>; the first argument is
  \<^verbatim>\<open>sql.Null[T].Scan\<close> run on the zero-valued local \<^verbatim>\<open>v\<close>: from the scanned
  value to the error and the content of \<^verbatim>\<open>v\<close> afterwards.\<close>

definition Scan ::
  "(goval \<Rightarrow> error option \<times> 'a sql_Null) \<Rightarrow> 'a Maybe \<Rightarrow> goval \<Rightarrow> error option \<times> 'a Maybe" where
  "Scan null_Scan m val =
     (case null_Scan val of
        (Some err, v) \<Rightarrow> (Some err, m)
      | (None, v) \<Rightarrow> (None, m\<lparr>Valid := NullValid v, Val := V v\<rparr>))"

text \<open>Integer conversion \<^verbatim>\<open>int64(v)\<close>: the value of \<^verbatim>\<open>v\<close>, sign-extended when its
  type is signed and zero-extended when it is unsigned, truncated to 64 bits.\<close>

definition int64_of_signed :: "'a::len word \<Rightarrow> 64 word" where
  "int64_of_signed v = word_of_int (sint v)"

definition int64_of_unsigned :: "'a::len word \<Rightarrow> 64 word" where
  "int64_of_unsigned v = word_of_int (uint v)"

text \<open>The case \<^verbatim>\<open>driver.Valuer\<close> of the type switch: built-in types have no
  methods, so only a value of a defined type can implement the interface. The
  method table \<open>valuer\<close> gives, for the name of a defined type, its \<^verbatim>\<open>Value\<close>
  method when it has one.\<close>

definition as_Valuer ::
  "(string \<Rightarrow> (goval \<Rightarrow> goval \<times> error option) option) \<Rightarrow> goval \<Rightarrow> (goval \<times> error option) option" where
  "as_Valuer valuer x =
     (case x of
        VNamed n u \<Rightarrow> (case valuer n of Some meth \<Rightarrow> Some (meth x) | None \<Rightarrow> None)
      | _ \<Rightarrow> None)"

text \<open>\<^verbatim>\<open>func (m Maybe[T]) Value() (driver.Value, error)\<close>. There is no case for
  \<^verbatim>\<open>int64\<close>, \<^verbatim>\<open>uintptr\<close> or \<^verbatim>\<open>float64\<close>: they reach \<^verbatim>\<open>return m.Val, nil\<close>.\<close>

definition Value ::
  "(string \<Rightarrow> (goval \<Rightarrow> goval \<times> error option) option) \<Rightarrow> goval Maybe \<Rightarrow> goval \<times> error option" where
  "Value valuer m =
     (if \<not> Valid m then (VNil, None)
      else (case as_Valuer valuer (Val m) of
              Some r \<Rightarrow> r
            | None \<Rightarrow>
               (case Val m of
                  VInt v \<Rightarrow> (VInt64 (int64_of_signed v), None)
                | VUint v \<Rightarrow> (VInt64 (int64_of_unsigned v), None)
                | VInt8 v \<Rightarrow> (VInt64 (int64_of_signed v), None)
                | VInt16 v \<Rightarrow> (VInt64 (int64_of_signed v), None)
                | VInt32 v \<Rightarrow> (VInt64 (int64_of_signed v), None)
                | VUint8 v \<Rightarrow> (VInt64 (int64_of_unsigned v), None)
                | VUint16 v \<Rightarrow> (VInt64 (int64_of_unsigned v), None)
                | VUint32 v \<Rightarrow> (VInt64 (int64_of_unsigned v), None)
                | VUint64 v \<Rightarrow> (VInt64 (int64_of_unsigned v), None)
                | VFloat32 v \<Rightarrow> (VFloat64 v, None)
                | _ \<Rightarrow> (Val m, None))))"

subsection \<open>Addresses: \<^verbatim>\<open>MaybeIface\<close>, \<^verbatim>\<open>Pointer\<close> and \<^verbatim>\<open>GetPtr\<close>\<close>

text \<open>
  Three functions take or return addresses. For them the memory is a list of
  \<^verbatim>\<open>Maybe[T]\<close> cells; the address of a cell is its index, and a variable that
  escapes is allocated at the end of the list. An \<^verbatim>\<open>Iface\<close> value is the address
  of a cell (a \<^verbatim>\<open>*Maybe[T]\<close>); a \<^verbatim>\<open>*T\<close> or \<^verbatim>\<open>unsafe.Pointer\<close> is \<^verbatim>\<open>nil\<close> or the
  address of the field \<^verbatim>\<open>Val\<close> of a cell. An address outside the list stands for
  an invalid pointer, and using it panics.
\<close>

type_synonym addr = nat

type_synonym 'a heap = "'a Maybe list"

datatype ptr = NilPtr | ValField addr

definition alloc :: "'a heap \<Rightarrow> 'a Maybe \<Rightarrow> addr \<times> 'a heap" where
  "alloc h m = (length h, h @ [m])"

definition deref :: "'a heap \<Rightarrow> addr \<Rightarrow> 'a Maybe option" where
  "deref h a = (if a < length h then Some (h ! a) else None)"

text \<open>Reading \<^verbatim>\<open>*(*T)(p)\<close> and writing \<^verbatim>\<open>*(*T)(p) = v\<close>.\<close>

definition load :: "'a heap \<Rightarrow> ptr \<Rightarrow> 'a option" where
  "load h p = (case p of NilPtr \<Rightarrow> None | ValField a \<Rightarrow> map_option Val (deref h a))"

definition store :: "'a heap \<Rightarrow> ptr \<Rightarrow> 'a \<Rightarrow> 'a heap option" where
  "store h p v =
     (case p of
        NilPtr \<Rightarrow> None
      | ValField a \<Rightarrow> (case deref h a of None \<Rightarrow> None | Some m \<Rightarrow> Some (h[a := m\<lparr>Val := v\<rparr>])))"

text \<open>\<^verbatim>\<open>func (m Maybe[T]) MaybeIface() Iface { return &m }\<close>. The receiver is passed
  by value: \<^verbatim>\<open>m\<close> is the method's own variable, initialised with a copy of the
  optional the method is called on, and \<^verbatim>\<open>&m\<close> is the address of that variable.\<close>

definition MaybeIface :: "'a heap \<Rightarrow> 'a Maybe \<Rightarrow> addr \<times> 'a heap" where
  "MaybeIface h m = alloc h m"

text \<open>\<^verbatim>\<open>func (m Maybe[T]) Pointer() *T\<close>: \<^verbatim>\<open>return &m.Val\<close> when valid, \<^verbatim>\<open>nil\<close>
  otherwise; the receiver is passed by value here too.\<close>

definition Pointer :: "'a heap \<Rightarrow> 'a Maybe \<Rightarrow> ptr \<times> 'a heap" where
  "Pointer h m =
     (if Valid m then (case alloc h m of (a, h') \<Rightarrow> (ValField a, h')) else (NilPtr, h))"

text \<open>\<^verbatim>\<open>func (m *Maybe[T]) GetPtr() unsafe.Pointer { return unsafe.Pointer(m.Pointer()) }\<close>;
  \<^verbatim>\<open>m.Pointer()\<close> is \<^verbatim>\<open>(*m).Pointer()\<close>.\<close>

definition GetPtr :: "'a heap \<Rightarrow> addr \<Rightarrow> panic + ptr \<times> 'a heap" where
  "GetPtr h a =
     (case deref h a of
        None \<Rightarrow> Inl NilDereference
      | Some m \<Rightarrow> Inr (Pointer h m))"

text \<open>The methods of \<^verbatim>\<open>Iface\<close> called on the address \<open>a\<close> of a cell.\<close>

definition Get_at :: "goval heap \<Rightarrow> addr \<Rightarrow> panic + goval \<times> bool" where
  "Get_at h a =
     (case deref h a of
        None \<Rightarrow> Inl NilDereference
      | Some m \<Rightarrow> Inr (fst (Get m)))"

definition Set_at ::
  "(gotype \<Rightarrow> string \<Rightarrow> bool) \<Rightarrow> gotype \<Rightarrow> goval heap \<Rightarrow> addr \<Rightarrow> goval \<Rightarrow> panic + goval heap" where
  "Set_at impl T h a x =
     (case type_assert impl T x of
        Inl p \<Rightarrow> Inl p
      | Inr v \<Rightarrow>
         (case deref h a of
            None \<Rightarrow> Inl NilDereference
          | Some m \<Rightarrow> (case Set impl T m x of Inl p \<Rightarrow> Inl p | Inr m' \<Rightarrow> Inr (h[a := m']))))"

definition SetPtr_at :: "'a heap \<Rightarrow> addr \<Rightarrow> ptr \<Rightarrow> panic + 'a heap" where
  "SetPtr_at h a p =
     (case deref h a of
        None \<Rightarrow> Inl NilDereference
      | Some m \<Rightarrow>
         (case p of
            NilPtr \<Rightarrow> Inr (h[a := SetPtr m None])
          | ValField b \<Rightarrow>
             (case load h p of
                None \<Rightarrow> Inl NilDereference
              | Some v \<Rightarrow> Inr (h[a := SetPtr m (Some v)]))))"

definition SetValid_at :: "'a heap \<Rightarrow> addr \<Rightarrow> panic + 'a heap" where
  "SetValid_at h a =
     (case deref h a of
        None \<Rightarrow> Inl NilDereference
      | Some m \<Rightarrow> Inr (h[a := SetValid m]))"

subsection \<open>A concrete payload codec\<close>

text \<open>\<^verbatim>\<open>encoding/json\<close> on the payload type \<^verbatim>\<open>*bool\<close> (\<open>None\<close> is the \<^verbatim>\<open>nil\<close>
  pointer); it instantiates the codec parameters of \<open>MarshalJSON\<close> and
  \<open>UnmarshalJSON\<close> at concrete inputs. \<^verbatim>\<open>json.Marshal\<close> writes \<^verbatim>\<open>null\<close> for the
  \<^verbatim>\<open>nil\<close> pointer and \<^verbatim>\<open>true\<close> or \<^verbatim>\<open>false\<close> for the pointee.\<close>

definition json_Marshal_ptr_bool :: "bool option \<Rightarrow> string \<times> error option" where
  "json_Marshal_ptr_bool p =
     (case p of
        None \<Rightarrow> (''null'', None)
      | Some b \<Rightarrow> (if b then ''true'' else ''false'', None))"

text \<open>JSON white space around a value, and integer literals.\<close>

definition json_space :: "char \<Rightarrow> bool" where
  "json_space c = (c = CHR '' '' \<or> c = CHR 0x09 \<or> c = CHR 0x0A \<or> c = CHR 0x0D)"

definition json_trim :: "string \<Rightarrow> string" where
  "json_trim data = rev (dropWhile json_space (rev (dropWhile json_space data)))"

definition json_digit :: "char \<Rightarrow> bool" where
  "json_digit c = (c \<in> set ''0123456789'')"

fun json_natural :: "string \<Rightarrow> bool" where
  "json_natural [] = False"
| "json_natural [c] = json_digit c"
| "json_natural (c # cs) = (c \<noteq> CHR ''0'' \<and> json_digit c \<and> list_all json_digit cs)"

fun json_integer :: "string \<Rightarrow> bool" where
  "json_integer [] = False"
| "json_integer (c # cs) = (if c = CHR ''-'' then json_natural cs else json_natural (c # cs))"

text \<open>\<^verbatim>\<open>json.Unmarshal(data, &p)\<close> for \<^verbatim>\<open>p *bool\<close>, on a single value surrounded by
  white space. \<^verbatim>\<open>null\<close> sets the pointer to \<^verbatim>\<open>nil\<close>; \<^verbatim>\<open>true\<close> and \<^verbatim>\<open>false\<close> store
  the boolean, through a new pointee when the pointer is \<^verbatim>\<open>nil\<close>. A number is a
  \<^verbatim>\<open>*json.UnmarshalTypeError\<close>, raised after a \<^verbatim>\<open>nil\<close> pointer has been given a
  new zero-valued pointee. Of the numbers only integer literals are
  recognised, and strings, arrays and objects are not: this function reports
  them, like malformed input, as a \<^verbatim>\<open>*json.SyntaxError\<close>, raised before the
  slot is touched.\<close>

definition json_Unmarshal_ptr_bool :: "string \<Rightarrow> bool option \<Rightarrow> error option \<times> bool option" where
  "json_Unmarshal_ptr_bool data p =
     (let tok = json_trim data in
      if tok = ''null'' then (None, None)
      else if tok = ''true'' then (None, Some True)
      else if tok = ''false'' then (None, Some False)
      else if json_integer tok then
        (Some (UnmarshalTypeError ''number'' ''bool''),
         (case p of None \<Rightarrow> Some False | Some b \<Rightarrow> Some b))
      else (Some SyntaxError, p))"

section \<open>Properties\<close>

subsection \<open>The bridge's \<^verbatim>\<open>Set\<close>\<close>

text \<open>On \<^verbatim>\<open>Maybe[int]\<close>, \<^verbatim>\<open>Set("abc")\<close> does not return: the type assertion panics.\<close>

theorem Set_mismatch_counterexample:
  "Set (\<lambda>t i. False) TInt (Nothing (VInt 0)) (VString ''abc'')
     = Inl (TypeAssertionPanic (Some TString) TInt)"
  by (simp add: Set_def type_assert_def)

text \<open>C1 (amended). \<^verbatim>\<open>Set\<close> has no result through which a failure could be
  reported. The run-time type of \<open>x\<close> matches \<open>T\<close> when \<open>T\<close> is not an interface
  type and the run-time type of \<open>x\<close> is \<open>T\<close>, or \<open>T\<close> is an interface type, \<open>x\<close>
  is not \<^verbatim>\<open>nil\<close> and the run-time type of \<open>x\<close> implements \<open>T\<close>. When it matches,
  \<open>Set\<close> stores \<open>x\<close> as the payload and marks the optional present. When it does
  not match, which includes \<open>x\<close> being \<^verbatim>\<open>nil\<close>, \<open>Set\<close> panics with the failed
  type assertion.\<close>

theorem Set_type_assertion:
  "(\<not> is_interface T \<longrightarrow> type_of x = Some T \<longrightarrow>
      Set impl T m x = Inr \<lparr>Val = x, Valid = True\<rparr>)
   \<and> (is_interface T \<longrightarrow> type_of x = Some t \<longrightarrow> implements impl t T \<longrightarrow>
      Set impl T m x = Inr \<lparr>Val = x, Valid = True\<rparr>)
   \<and> (\<not> is_interface T \<longrightarrow> type_of x \<noteq> Some T \<longrightarrow>
      Set impl T m x = Inl (TypeAssertionPanic (type_of x) T))
   \<and> (is_interface T \<longrightarrow> type_of x = Some t \<longrightarrow> \<not> implements impl t T \<longrightarrow>
      Set impl T m x = Inl (TypeAssertionPanic (Some t) T))
   \<and> (type_of x = None \<longrightarrow> Set impl T m x = Inl (TypeAssertionPanic None T))"
  by (cases "type_of x") (auto simp add: Set_def type_assert_def)

text \<open>The witness: \<^verbatim>\<open>Maybe[int]\<close> with an \<^verbatim>\<open>int\<close> and with a \<^verbatim>\<open>string\<close>;
  \<^verbatim>\<open>Maybe[error]\<close>, where the defined type \<^verbatim>\<open>errorString\<close> is the one type with
  the method of \<^verbatim>\<open>error\<close>, with a value of that type and with an \<^verbatim>\<open>int\<close>;
  \<^verbatim>\<open>Maybe[any]\<close> with a \<^verbatim>\<open>string\<close> and with \<^verbatim>\<open>nil\<close>.\<close>

theorem Set_type_assertion_witness:
  "\<not> is_interface TInt \<and> type_of (VInt 1234) = Some TInt
   \<and> Set (\<lambda>t i. t = TNamed ''errorString'' TString \<and> i = ''error'')
        TInt (Nothing (VInt 0)) (VInt 1234) = Inr (Unit (VInt 1234))
   \<and> type_of (VString ''abc'') \<noteq> Some TInt
   \<and> Set (\<lambda>t i. t = TNamed ''errorString'' TString \<and> i = ''error'')
        TInt (Unit (VInt 5)) (VString ''abc'') = Inl (TypeAssertionPanic (Some TString) TInt)
   \<and> is_interface (TInterface ''error'')
   \<and> type_of (VNamed ''errorString'' (VString ''boom'')) = Some (TNamed ''errorString'' TString)
   \<and> implements (\<lambda>t i. t = TNamed ''errorString'' TString \<and> i = ''error'')
        (TNamed ''errorString'' TString) (TInterface ''error'')
   \<and> Set (\<lambda>t i. t = TNamed ''errorString'' TString \<and> i = ''error'')
        (TInterface ''error'') (Nothing VNil) (VNamed ''errorString'' (VString ''boom''))
       = Inr (Unit (VNamed ''errorString'' (VString ''boom'')))
   \<and> type_of (VInt 5) = Some TInt
   \<and> \<not> implements (\<lambda>t i. t = TNamed ''errorString'' TString \<and> i = ''error'')
        TInt (TInterface ''error'')
   \<and> Set (\<lambda>t i. t = TNamed ''errorString'' TString \<and> i = ''error'')
        (TInterface ''error'') (Nothing VNil) (VInt 5)
       = Inl (TypeAssertionPanic (Some TInt) (TInterface ''error''))
   \<and> is_interface TAny \<and> type_of (VString ''abc'') = Some TString
   \<and> Set (\<lambda>t i. t = TNamed ''errorString'' TString \<and> i = ''error'')
        TAny (Nothing VNil) (VString ''abc'') = Inr (Unit (VString ''abc''))
   \<and> type_of VNil = None
   \<and> Set (\<lambda>t i. t = TNamed ''errorString'' TString \<and> i = ''error'')
        TAny (Unit (VInt 5)) VNil = Inl (TypeAssertionPanic None TAny)"
  using
    Set_type_assertion [of TInt "VInt 1234"
      "\<lambda>t i. t = TNamed ''errorString'' TString \<and> i = ''error''" "Nothing (VInt 0)" TInt]
    Set_type_assertion [of TInt "VString ''abc''"
      "\<lambda>t i. t = TNamed ''errorString'' TString \<and> i = ''error''" "Unit (VInt 5)" TString]
    Set_type_assertion [of "TInterface ''error''" "VNamed ''errorString'' (VString ''boom'')"
      "\<lambda>t i. t = TNamed ''errorString'' TString \<and> i = ''error''" "Nothing VNil"
      "TNamed ''errorString'' TString"]
    Set_type_assertion [of "TInterface ''error''" "VInt 5"
      "\<lambda>t i. t = TNamed ''errorString'' TString \<and> i = ''error''" "Nothing VNil" TInt]
    Set_type_assertion [of TAny "VString ''abc''"
      "\<lambda>t i. t = TNamed ''errorString'' TString \<and> i = ''error''" "Nothing VNil" TString]
    Set_type_assertion [of TAny VNil
      "\<lambda>t i. t = TNamed ''errorString'' TString \<and> i = ''error''" "Unit (VInt 5)" TInt]
  by (simp add: Unit_def)

subsection \<open>Decoding the token \<^verbatim>\<open>null\<close>\<close>

text \<open>Decoding \<^verbatim>\<open>null\<close> into an optional that holds a value leaves it present.\<close>

theorem UnmarshalJSON_null_counterexample:
  "UnmarshalJSON json_Unmarshal_ptr_bool (Unit (Some True)) ''null'' = (None, Unit (Some True))
   \<and> Valid (Unit (Some True))"
  by (simp add: UnmarshalJSON_def null_def Unit_def)

text \<open>C2 (amended). Decoding the token \<^verbatim>\<open>null\<close> is a no-op: \<open>UnmarshalJSON\<close> returns
  no error and leaves both fields of the optional as they were. An empty
  optional stays empty; an optional that holds a value keeps it and stays
  present.\<close>

theorem UnmarshalJSON_null_noop:
  "UnmarshalJSON json_Unmarshal m null = (None, m)"
  by (simp add: UnmarshalJSON_def)

subsection \<open>The bridge's \<^verbatim>\<open>Get\<close>\<close>

text \<open>On the empty \<^verbatim>\<open>Maybe[int]\<close>, \<^verbatim>\<open>Get\<close> returns the \<^verbatim>\<open>nil\<close> interface, which is not
  the zero value \<^verbatim>\<open>int(0)\<close>.\<close>

theorem Get_empty_counterexample:
  "fst (Get (Nothing (zero_of TInt))) = (VNil, False)
   \<and> (VNil, False) \<noteq> (zero_of TInt, False)"
  by (simp add: Get_def Nothing_def)

text \<open>C3 (amended). For every value \<open>x\<close>, \<open>Get\<close> on \<open>Unit x\<close> returns \<open>(x, true)\<close>;
  \<open>Get\<close> on an empty optional returns the \<^verbatim>\<open>nil\<close> interface value paired with
  \<open>false\<close>, whatever the payload type; \<open>Get\<close> leaves the optional as it was.\<close>

theorem Get_result:
  "Get (Unit x) = ((x, True), Unit x)
   \<and> Get (Nothing z) = ((VNil, False), Nothing z)
   \<and> snd (Get m) = m"
  by (simp add: Get_def Unit_def Nothing_def)

subsection \<open>\<^verbatim>\<open>FallibleFmap\<close> with a failing function\<close>

text \<open>On an empty optional no error is returned: the function is not called.\<close>

theorem FallibleFmap_empty_counterexample:
  "FallibleFmap (0::int) (\<lambda>x::int. (0, Some (Error ''unsupported''))) (Nothing 0) = (Nothing 0, None)"
  by (simp add: FallibleFmap_def Nothing_def)

text \<open>C5 (amended). For every function \<open>f\<close> that always returns an error and every
  optional \<open>m\<close>, \<open>FallibleFmap\<close> returns an empty optional; it returns the error
  of \<open>f\<close> on the payload when \<open>m\<close> is present and no error when \<open>m\<close> is empty.\<close>

theorem FallibleFmap_failing:
  assumes "\<forall>v. snd (f v) \<noteq> None"
  shows "FallibleFmap zU f m = (Nothing zU, if Valid m then snd (f (Val m)) else None)"
proof (cases "f (Val m)")
  case (Pair y e)
  from assms have "snd (f (Val m)) \<noteq> None" ..
  with Pair obtain err where "e = Some err"
    by auto
  with Pair show ?thesis
    by (simp add: FallibleFmap_def Nothing_def)
qed

theorem FallibleFmap_failing_witness:
  "(\<forall>v::int. snd ((\<lambda>x. (0::int, Some (Error ''unsupported''))) v) \<noteq> None)
   \<and> FallibleFmap 0 (\<lambda>x::int. (0::int, Some (Error ''unsupported''))) (Unit 1234)
       = (Nothing 0, Some (Error ''unsupported''))"
  using FallibleFmap_failing [of "\<lambda>x::int. (0::int, Some (Error ''unsupported''))" 0 "Unit 1234"]
  by (simp add: Unit_def)

subsection \<open>Functor laws of \<^verbatim>\<open>Fmap\<close>\<close>

text \<open>C7. The functor laws hold for \<open>Fmap\<close>, with the equality of optionals
  \<open>maybe_eq\<close>: for every optional \<open>m\<close>, \<open>Fmap Identity m\<close> equals \<open>m\<close>, and for
  all functions \<open>f\<close> and \<open>g\<close> and every optional \<open>m\<close>, \<open>Fmap\<close> of \<open>f\<close> after \<open>g\<close>
  equals \<open>Fmap f\<close> of \<open>Fmap g m\<close>, here also as records. The result of \<open>Fmap\<close>
  is present exactly when its input is, so an empty input yields an empty
  result; \<open>Nothing\<close> is mapped to \<open>Nothing\<close>, and \<open>Unit x\<close> to \<open>Unit (g x)\<close>.\<close>

theorem Fmap_functor:
  "maybe_eq (Fmap z Identity m) m
   \<and> maybe_eq (Fmap zc (\<lambda>x. f (g x)) m) (Fmap zc f (Fmap zb g m))
   \<and> Fmap zc (\<lambda>x. f (g x)) m = Fmap zc f (Fmap zb g m)
   \<and> Valid (Fmap zb g m) = Valid m
   \<and> Fmap zb g (Nothing za) = Nothing zb
   \<and> Fmap zb g (Unit x) = Unit (g x)"
  by (simp add: Fmap_def maybe_eq_def Identity_def Nothing_def Unit_def)

subsection \<open>\<^verbatim>\<open>Scan\<close> on a failing scan primitive\<close>

text \<open>C9. For every optional \<open>m\<close> and every input value, if \<^verbatim>\<open>sql.Null[T].Scan\<close>
  returns an error, then \<open>Scan\<close> returns that error and leaves \<open>m\<close>, hence both
  \<open>Val\<close> and \<open>Valid\<close>, as it was before the call.\<close>

theorem Scan_error_atomic:
  "fst (null_Scan val) = Some err \<Longrightarrow> Scan null_Scan m val = (Some err, m)"
  by (cases "null_Scan val") (simp add: Scan_def)

theorem Scan_error_atomic_witness:
  "fst ((\<lambda>v. (Some (Error ''converting driver.Value type string to a int''),
              \<lparr>V = 0::int, NullValid = True\<rparr>)) (VString ''abc''))
     = Some (Error ''converting driver.Value type string to a int'')
   \<and> Scan (\<lambda>v. (Some (Error ''converting driver.Value type string to a int''),
              \<lparr>V = 0::int, NullValid = True\<rparr>)) (Unit 7) (VString ''abc'')
     = (Some (Error ''converting driver.Value type string to a int''), Unit 7)"
  using Scan_error_atomic [of "\<lambda>v. (Some (Error ''converting driver.Value type string to a int''),
              \<lparr>V = 0::int, NullValid = True\<rparr>)" "VString ''abc''"
              "Error ''converting driver.Value type string to a int''" "Unit 7"]
  by simp

subsection \<open>\<^verbatim>\<open>UnmarshalJSON\<close> on a failing payload decode\<close>

text \<open>C10. When \<open>UnmarshalJSON\<close> is called with bytes other than \<^verbatim>\<open>null\<close> and
  \<^verbatim>\<open>json.Unmarshal\<close> on the payload slot fails, the error is returned and the
  optional is marked present all the same.\<close>

theorem UnmarshalJSON_error_marks_present:
  "val \<noteq> null \<Longrightarrow> fst (json_Unmarshal val (Val m)) = Some err \<Longrightarrow>
     fst (UnmarshalJSON json_Unmarshal m val) = Some err
     \<and> Valid (snd (UnmarshalJSON json_Unmarshal m val))"
  by (cases "json_Unmarshal val (Val m)") (simp add: UnmarshalJSON_def)

theorem UnmarshalJSON_error_marks_present_witness:
  "''123'' \<noteq> null
   \<and> fst (json_Unmarshal_ptr_bool ''123'' (Val (Nothing None)))
       = Some (UnmarshalTypeError ''number'' ''bool'')
   \<and> fst (UnmarshalJSON json_Unmarshal_ptr_bool (Nothing None) ''123'')
       = Some (UnmarshalTypeError ''number'' ''bool'')
   \<and> Valid (snd (UnmarshalJSON json_Unmarshal_ptr_bool (Nothing None) ''123''))"
proof -
  have ne: "''123'' \<noteq> null"
    by (simp add: null_def)
  have dec: "fst (json_Unmarshal_ptr_bool ''123'' (Val (Nothing None)))
       = Some (UnmarshalTypeError ''number'' ''bool'')"
    by (simp add: json_Unmarshal_ptr_bool_def json_trim_def json_space_def json_digit_def)
  from UnmarshalJSON_error_marks_present [of "''123''" json_Unmarshal_ptr_bool "Nothing None"
      "UnmarshalTypeError ''number'' ''bool''"] ne dec
  show ?thesis
    by simp
qed

subsection \<open>\<^verbatim>\<open>Value\<close> on integers and floats\<close>

text \<open>The bounds of \<^verbatim>\<open>int64\<close> and the two integer conversions.\<close>

lemma sint_word_of_int_64:
  fixes k :: int
  assumes "- (2 ^ 63) \<le> k" and "k < 2 ^ 63"
  shows "sint (word_of_int k :: 64 word) = k"
proof -
  have "sint (word_of_int k :: 64 word) = signed_take_bit (LENGTH(64) - 1) k"
    by (rule sint_sbintrunc')
  also have "\<dots> = signed_take_bit 63 k"
    by simp
  also have "\<dots> = k"
    using assms by (rule signed_take_bit_int_eq_self)
  finally show ?thesis .
qed

lemma int64_of_signed_sint:
  fixes v :: "'a::len word"
  assumes "LENGTH('a) \<le> 64"
  shows "sint (int64_of_signed v) = sint v"
proof -
  have "(2::int) ^ (LENGTH('a) - 1) \<le> 2 ^ 63"
    using assms by (intro power_increasing) auto
  with sint_ge [of v] sint_lt [of v]
  have "- (2 ^ 63) \<le> sint v" and "sint v < 2 ^ 63"
    by linarith+
  then show ?thesis
    unfolding int64_of_signed_def by (rule sint_word_of_int_64)
qed

lemma int64_of_unsigned_narrow:
  fixes v :: "'a::len word"
  assumes "LENGTH('a) < 64"
  shows "sint (int64_of_unsigned v) = uint v"
proof -
  have "(2::int) ^ LENGTH('a) \<le> 2 ^ 63"
    using assms by (intro power_increasing) auto
  with uint_lt2p [of v] have "uint v < 2 ^ 63"
    by linarith
  moreover have "- (2 ^ 63) \<le> uint v"
    by (rule order_trans [of _ 0]) simp_all
  ultimately show ?thesis
    unfolding int64_of_unsigned_def by (intro sint_word_of_int_64)
qed

lemma int64_of_unsigned_64:
  fixes v :: "64 word"
  shows "sint (int64_of_unsigned v) = (if uint v < 2 ^ 63 then uint v else uint v - 2 ^ 64)"
proof (cases "uint v < 2 ^ 63")
  case True
  moreover have "- (2 ^ 63) \<le> uint v"
    by (rule order_trans [of _ 0]) simp_all
  ultimately have "sint (word_of_int (uint v) :: 64 word) = uint v"
    by (intro sint_word_of_int_64)
  with True show ?thesis
    by (simp only: int64_of_unsigned_def if_True)
next
  case False
  have "uint v < 2 ^ 64"
    using uint_lt2p [of v] by simp
  with False have "- (2 ^ 63) \<le> uint v - 2 ^ 64" and "uint v - 2 ^ 64 < 2 ^ 63"
    by simp_all
  then have "sint (word_of_int (uint v - 2 ^ 64) :: 64 word) = uint v - 2 ^ 64"
    by (rule sint_word_of_int_64)
  moreover have "(word_of_int (uint v - 2 ^ 64) :: 64 word) = word_of_int (uint v)"
    by (simp add: word_of_int_eq_iff take_bit_eq_mod)
  ultimately show ?thesis
    using False by (simp only: int64_of_unsigned_def if_False)
qed

lemma Value_Unit_signed:
  "Value valuer (Unit (VInt a)) = (VInt64 (int64_of_signed a), None)"
  "Value valuer (Unit (VInt8 b)) = (VInt64 (int64_of_signed b), None)"
  "Value valuer (Unit (VInt16 c)) = (VInt64 (int64_of_signed c), None)"
  "Value valuer (Unit (VInt32 d)) = (VInt64 (int64_of_signed d), None)"
  "Value valuer (Unit (VInt64 e)) = (VInt64 e, None)"
  by (simp_all add: Value_def Unit_def as_Valuer_def)

lemma Value_Unit_unsigned:
  "Value valuer (Unit (VUint a)) = (VInt64 (int64_of_unsigned a), None)"
  "Value valuer (Unit (VUint8 b)) = (VInt64 (int64_of_unsigned b), None)"
  "Value valuer (Unit (VUint16 c)) = (VInt64 (int64_of_unsigned c), None)"
  "Value valuer (Unit (VUint32 d)) = (VInt64 (int64_of_unsigned d), None)"
  "Value valuer (Unit (VUint64 e)) = (VInt64 (int64_of_unsigned e), None)"
  by (simp_all add: Value_def Unit_def as_Valuer_def)

text \<open>\<^verbatim>\<open>Unit(uint64(1 << 63))\<close> is converted to the \<^verbatim>\<open>int64\<close> \<open>- 2 ^ 63\<close>, which is
  not the original value \<open>2 ^ 63\<close>.\<close>

theorem Value_uint64_counterexample:
  "Value (\<lambda>n. None) (Unit (VUint64 9223372036854775808)) = (VInt64 (- 9223372036854775808), None)
   \<and> sint (- 9223372036854775808 :: 64 word) = - 9223372036854775808
   \<and> uint (9223372036854775808 :: 64 word) = 9223372036854775808"
  by (simp add: Value_def Unit_def as_Valuer_def int64_of_unsigned_def)

text \<open>C4 (amended). For every present optional wrapping an \<^verbatim>\<open>int\<close>, \<^verbatim>\<open>int8\<close>,
  \<^verbatim>\<open>int16\<close>, \<^verbatim>\<open>int32\<close>, \<^verbatim>\<open>int64\<close>, \<^verbatim>\<open>uint8\<close>, \<^verbatim>\<open>uint16\<close> or \<^verbatim>\<open>uint32\<close>, \<open>Value\<close>
  returns an \<^verbatim>\<open>int64\<close> equal to the original value and no error. For a \<^verbatim>\<open>uint\<close> or
  \<^verbatim>\<open>uint64\<close> it returns the \<^verbatim>\<open>int64\<close> with the same 64 bits: the original value
  when that is below \<open>2 ^ 63\<close>, and the original value minus \<open>2 ^ 64\<close> otherwise.
  A present \<^verbatim>\<open>float32\<close> maps to the \<^verbatim>\<open>float64\<close> of the same value. An empty
  optional maps to \<^verbatim>\<open>nil\<close> with no error.\<close>

theorem Value_conversion:
  "(\<exists>r. Value valuer (Unit (VInt i)) = (VInt64 r, None) \<and> sint r = sint i)
   \<and> (\<exists>r. Value valuer (Unit (VInt8 i8)) = (VInt64 r, None) \<and> sint r = sint i8)
   \<and> (\<exists>r. Value valuer (Unit (VInt16 i16)) = (VInt64 r, None) \<and> sint r = sint i16)
   \<and> (\<exists>r. Value valuer (Unit (VInt32 i32)) = (VInt64 r, None) \<and> sint r = sint i32)
   \<and> (\<exists>r. Value valuer (Unit (VInt64 i64)) = (VInt64 r, None) \<and> sint r = sint i64)
   \<and> (\<exists>r. Value valuer (Unit (VUint8 u8)) = (VInt64 r, None) \<and> sint r = uint u8)
   \<and> (\<exists>r. Value valuer (Unit (VUint16 u16)) = (VInt64 r, None) \<and> sint r = uint u16)
   \<and> (\<exists>r. Value valuer (Unit (VUint32 u32)) = (VInt64 r, None) \<and> sint r = uint u32)
   \<and> (\<exists>r. Value valuer (Unit (VUint u)) = (VInt64 r, None)
          \<and> sint r = (if uint u < 2 ^ 63 then uint u else uint u - 2 ^ 64))
   \<and> (\<exists>r. Value valuer (Unit (VUint64 u64)) = (VInt64 r, None)
          \<and> sint r = (if uint u64 < 2 ^ 63 then uint u64 else uint u64 - 2 ^ 64))
   \<and> Value valuer (Unit (VFloat32 x)) = (VFloat64 x, None)
   \<and> Value valuer (Nothing z) = (VNil, None)
   \<and> Value valuer (m\<lparr>Valid := False\<rparr>) = (VNil, None)"
proof (intro conjI)
  show "\<exists>r. Value valuer (Unit (VInt i)) = (VInt64 r, None) \<and> sint r = sint i"
    by (simp only: Value_Unit_signed) (simp add: int64_of_signed_sint)
  show "\<exists>r. Value valuer (Unit (VInt8 i8)) = (VInt64 r, None) \<and> sint r = sint i8"
    by (simp only: Value_Unit_signed) (simp add: int64_of_signed_sint)
  show "\<exists>r. Value valuer (Unit (VInt16 i16)) = (VInt64 r, None) \<and> sint r = sint i16"
    by (simp only: Value_Unit_signed) (simp add: int64_of_signed_sint)
  show "\<exists>r. Value valuer (Unit (VInt32 i32)) = (VInt64 r, None) \<and> sint r = sint i32"
    by (simp only: Value_Unit_signed) (simp add: int64_of_signed_sint)
  show "\<exists>r. Value valuer (Unit (VInt64 i64)) = (VInt64 r, None) \<and> sint r = sint i64"
    by (simp only: Value_Unit_signed) simp
  show "\<exists>r. Value valuer (Unit (VUint8 u8)) = (VInt64 r, None) \<and> sint r = uint u8"
    by (simp only: Value_Unit_unsigned) (simp add: int64_of_unsigned_narrow)
  show "\<exists>r. Value valuer (Unit (VUint16 u16)) = (VInt64 r, None) \<and> sint r = uint u16"
    by (simp only: Value_Unit_unsigned) (simp add: int64_of_unsigned_narrow)
  show "\<exists>r. Value valuer (Unit (VUint32 u32)) = (VInt64 r, None) \<and> sint r = uint u32"
    by (simp only: Value_Unit_unsigned) (simp add: int64_of_unsigned_narrow)
  show "\<exists>r. Value valuer (Unit (VUint u)) = (VInt64 r, None)
          \<and> sint r = (if uint u < 2 ^ 63 then uint u else uint u - 2 ^ 64)"
    using int64_of_unsigned_64 [of u] by (simp only: Value_Unit_unsigned) blast
  show "\<exists>r. Value valuer (Unit (VUint64 u64)) = (VInt64 r, None)
          \<and> sint r = (if uint u64 < 2 ^ 63 then uint u64 else uint u64 - 2 ^ 64)"
    using int64_of_unsigned_64 [of u64] by (simp only: Value_Unit_unsigned) blast
  show "Value valuer (Unit (VFloat32 x)) = (VFloat64 x, None)"
    by (simp add: Value_def Unit_def as_Valuer_def)
  show "Value valuer (Nothing z) = (VNil, None)"
    by (simp add: Value_def Nothing_def)
  show "Value valuer (m\<lparr>Valid := False\<rparr>) = (VNil, None)"
    by (simp add: Value_def)
qed

subsection \<open>JSON round trip\<close>

text \<open>The payload type \<^verbatim>\<open>*bool\<close> round-trips through its codec, and the present
  optional holding the \<^verbatim>\<open>nil\<close> pointer is encoded as \<^verbatim>\<open>null\<close>, which decodes into
  a fresh optional as the empty optional: a present optional has become an
  empty one.\<close>

theorem json_roundtrip_nil_payload_counterexample:
  "MarshalJSON json_Marshal_ptr_bool (Unit None) = (''null'', None)
   \<and> UnmarshalJSON json_Unmarshal_ptr_bool (Nothing None) ''null'' = (None, Nothing None)
   \<and> \<not> maybe_eq (Nothing None) (Unit (None :: bool option))
   \<and> Nothing None \<noteq> Unit (None :: bool option)
   \<and> json_Unmarshal_ptr_bool (fst (json_Marshal_ptr_bool None)) None = (None, None)
   \<and> json_Unmarshal_ptr_bool (fst (json_Marshal_ptr_bool (Some True))) None = (None, Some True)
   \<and> json_Unmarshal_ptr_bool (fst (json_Marshal_ptr_bool (Some False))) None = (None, Some False)"
  by (simp add: MarshalJSON_def UnmarshalJSON_def null_def Unit_def Nothing_def maybe_eq_def
      json_Marshal_ptr_bool_def json_Unmarshal_ptr_bool_def json_trim_def json_space_def)

text \<open>C6 (amended). Provided the payload type round-trips through the host
  codec (every payload is encoded without error, and decoding its encoding into
  a zero-valued slot gives it back without error), for every optional \<open>m\<close> that
  is empty, or present with a payload whose encoding is not the token \<^verbatim>\<open>null\<close>:
  encoding \<open>m\<close> succeeds, and decoding the bytes into a freshly constructed
  optional yields, without error, an optional equal to \<open>m\<close>. Equal is
  \<open>maybe_eq\<close>; the decoded optional is \<open>m\<close> itself when \<open>m\<close> is present and
  the fresh optional when \<open>m\<close> is empty.\<close>

theorem json_roundtrip:
  assumes codec: "\<forall>v. snd (json_Marshal v) = None \<and> json_Unmarshal (fst (json_Marshal v)) z = (None, v)"
    and not_null: "Valid m \<longrightarrow> fst (json_Marshal (Val m)) \<noteq> null"
  shows "snd (MarshalJSON json_Marshal m) = None
    \<and> (\<exists>m'. UnmarshalJSON json_Unmarshal (Nothing z) (fst (MarshalJSON json_Marshal m)) = (None, m')
          \<and> maybe_eq m' m
          \<and> m' = (if Valid m then m else Nothing z))"
proof (cases "Valid m")
  case True
  from codec have enc: "snd (json_Marshal (Val m)) = None"
    and dec: "json_Unmarshal (fst (json_Marshal (Val m))) z = (None, Val m)"
    by simp_all
  from True not_null have "fst (json_Marshal (Val m)) \<noteq> null"
    by simp
  with True enc dec show ?thesis
    by (simp add: MarshalJSON_def UnmarshalJSON_def Nothing_def maybe_eq_def)
next
  case False
  then show ?thesis
    by (simp add: MarshalJSON_def UnmarshalJSON_def Nothing_def maybe_eq_def)
qed

text \<open>The witness: the present optional holding a pointer to \<^verbatim>\<open>true\<close>, and an
  empty optional whose payload slot still holds such a pointer.\<close>

theorem json_roundtrip_witness:
  "(\<forall>v. snd (json_Marshal_ptr_bool v) = None
        \<and> json_Unmarshal_ptr_bool (fst (json_Marshal_ptr_bool v)) None = (None, v))
   \<and> Valid (Unit (Some True))
   \<and> fst (json_Marshal_ptr_bool (Val (Unit (Some True)))) \<noteq> null
   \<and> MarshalJSON json_Marshal_ptr_bool (Unit (Some True)) = (''true'', None)
   \<and> UnmarshalJSON json_Unmarshal_ptr_bool (Nothing None) ''true'' = (None, Unit (Some True))
   \<and> \<not> Valid \<lparr>Val = Some True, Valid = False\<rparr>
   \<and> MarshalJSON json_Marshal_ptr_bool \<lparr>Val = Some True, Valid = False\<rparr> = (''null'', None)
   \<and> UnmarshalJSON json_Unmarshal_ptr_bool (Nothing None) ''null'' = (None, Nothing None)
   \<and> maybe_eq (Nothing None) \<lparr>Val = Some True, Valid = False\<rparr>"
proof -
  have codec: "\<forall>v. snd (json_Marshal_ptr_bool v) = None
        \<and> json_Unmarshal_ptr_bool (fst (json_Marshal_ptr_bool v)) None = (None, v)"
    by (simp add: json_Marshal_ptr_bool_def json_Unmarshal_ptr_bool_def json_trim_def
        json_space_def split: option.split)
  have present: "Valid (Unit (Some True))"
    and not_null: "fst (json_Marshal_ptr_bool (Val (Unit (Some True)))) \<noteq> null"
    by (simp_all add: json_Marshal_ptr_bool_def Unit_def null_def)
  have enc: "MarshalJSON json_Marshal_ptr_bool (Unit (Some True)) = (''true'', None)"
    by (simp add: MarshalJSON_def json_Marshal_ptr_bool_def Unit_def)
  have empty: "\<not> Valid \<lparr>Val = Some True, Valid = False\<rparr>"
    by simp
  have enc': "MarshalJSON json_Marshal_ptr_bool \<lparr>Val = Some True, Valid = False\<rparr> = (''null'', None)"
    by (simp add: MarshalJSON_def null_def)
  from json_roundtrip [where json_Marshal = json_Marshal_ptr_bool
        and json_Unmarshal = json_Unmarshal_ptr_bool and z = None and m = "Unit (Some True)"]
    json_roundtrip [where json_Marshal = json_Marshal_ptr_bool
        and json_Unmarshal = json_Unmarshal_ptr_bool and z = None
        and m = "\<lparr>Val = Some True, Valid = False\<rparr>"]
    codec present not_null enc empty enc'
  show ?thesis
    by auto
qed

subsection \<open>The bridge returned by \<^verbatim>\<open>MaybeIface\<close>\<close>

lemma deref_alloc:
  "alloc h m = (b, h1) \<Longrightarrow> deref h1 b = Some m"
  "alloc h m = (b, h1) \<Longrightarrow> deref h a = Some n \<Longrightarrow> b \<noteq> a \<and> deref h1 a = Some n"
  by (auto simp add: alloc_def deref_def nth_append split: if_splits)

lemma deref_update:
  "deref h b = Some m \<Longrightarrow> deref (h[b := m']) b = Some m'"
  "a \<noteq> b \<Longrightarrow> deref (h[b := m']) a = deref h a"
  by (auto simp add: deref_def split: if_splits)

text \<open>An empty optional at address 0: \<^verbatim>\<open>SetValid\<close> through the bridge returned by
  \<^verbatim>\<open>MaybeIface\<close> marks the cell at address 1, and the optional itself still reads
  empty. A present optional at address 0: the pointer that \<^verbatim>\<open>GetPtr\<close> returns
  through its bridge is not the address of the optional's payload slot, and a
  write through it does not reach the optional.\<close>

theorem MaybeIface_counterexample:
  "deref [Nothing (VInt 0)] 0 = Some (Nothing (VInt 0))
   \<and> MaybeIface [Nothing (VInt 0)] (Nothing (VInt 0)) = (1, [Nothing (VInt 0), Nothing (VInt 0)])
   \<and> SetValid_at [Nothing (VInt 0), Nothing (VInt 0)] 1 = Inr [Nothing (VInt 0), Unit (VInt 0)]
   \<and> deref [Nothing (VInt 0), Unit (VInt 0)] 0 = Some (Nothing (VInt 0))
   \<and> \<not> Valid (Nothing (VInt 0))
   \<and> deref [Unit (VInt 5)] 0 = Some (Unit (VInt 5))
   \<and> MaybeIface [Unit (VInt 5)] (Unit (VInt 5)) = (1, [Unit (VInt 5), Unit (VInt 5)])
   \<and> GetPtr [Unit (VInt 5), Unit (VInt 5)] 1
        = Inr (ValField 2, [Unit (VInt 5), Unit (VInt 5), Unit (VInt 5)])
   \<and> ValField 2 \<noteq> ValField 0
   \<and> store [Unit (VInt 5), Unit (VInt 5), Unit (VInt 5)] (ValField 2) (VInt 7)
        = Some [Unit (VInt 5), Unit (VInt 5), Unit (VInt 7)]
   \<and> deref [Unit (VInt 5), Unit (VInt 5), Unit (VInt 7)] 0 = Some (Unit (VInt 5))"
  by (simp add: deref_def MaybeIface_def alloc_def SetValid_at_def SetValid_def GetPtr_def
      Pointer_def store_def Nothing_def Unit_def)

text \<open>C8 (amended). For every optional \<open>m\<close>, stored at address \<open>a\<close>, \<^verbatim>\<open>m.MaybeIface()\<close>
  returns a bridge \<open>b\<close> over a copy of \<open>m\<close> made at the call: \<open>b\<close> differs from
  \<open>a\<close>, the bridge initially reads as \<open>m\<close>, and a mutation through it by \<^verbatim>\<open>Set\<close>,
  \<^verbatim>\<open>SetPtr\<close> or \<^verbatim>\<open>SetValid\<close> is visible when the bridge is read and leaves \<open>m\<close>
  as it was. The bridge that is a view of the storage of \<open>m\<close> is the pointer
  \<^verbatim>\<open>&m\<close>, the address \<open>a\<close> itself: a mutation through it is visible when \<open>m\<close> is
  read. The pointer that \<^verbatim>\<open>GetPtr\<close> returns through the bridge is \<^verbatim>\<open>nil\<close> when the
  optional is empty and otherwise points to a slot that holds the payload.
  The value \<open>x\<close> passed to \<^verbatim>\<open>Set\<close> has a run-time type \<open>t\<close> that matches \<open>T\<close>, and
  the pointer passed to \<^verbatim>\<open>SetPtr\<close> is \<^verbatim>\<open>nil\<close> or the address of the payload slot
  of an optional \<open>s\<close>.\<close>

theorem MaybeIface_copy:
  assumes cell: "deref h a = Some m"
    and iface: "MaybeIface h m = (b, h1)"
    and typed: "type_of x = Some t"
    and matches: "if is_interface T then implements impl t T else t = T"
    and src: "deref h c = Some s"
  shows "b \<noteq> a \<and> deref h1 b = Some m \<and> deref h1 a = Some m
    \<and> (\<exists>h2. Set_at impl T h1 b x = Inr h2
          \<and> deref h2 b = Some \<lparr>Val = x, Valid = True\<rparr> \<and> deref h2 a = Some m)
    \<and> (\<exists>h2. SetPtr_at h1 b NilPtr = Inr h2
          \<and> deref h2 b = Some (m\<lparr>Valid := False\<rparr>) \<and> deref h2 a = Some m)
    \<and> (\<exists>h2. SetPtr_at h1 b (ValField c) = Inr h2
          \<and> deref h2 b = Some \<lparr>Val = Val s, Valid = True\<rparr> \<and> deref h2 a = Some m)
    \<and> (\<exists>h2. SetValid_at h1 b = Inr h2
          \<and> deref h2 b = Some (m\<lparr>Valid := True\<rparr>) \<and> deref h2 a = Some m)
    \<and> (\<exists>h2. Set_at impl T h a x = Inr h2 \<and> deref h2 a = Some \<lparr>Val = x, Valid = True\<rparr>)
    \<and> (\<exists>h2. SetPtr_at h a NilPtr = Inr h2 \<and> deref h2 a = Some (m\<lparr>Valid := False\<rparr>))
    \<and> (\<exists>h2. SetPtr_at h a (ValField c) = Inr h2 \<and> deref h2 a = Some \<lparr>Val = Val s, Valid = True\<rparr>)
    \<and> (\<exists>h2. SetValid_at h a = Inr h2 \<and> deref h2 a = Some (m\<lparr>Valid := True\<rparr>))
    \<and> (if Valid m
        then \<exists>p h2. GetPtr h1 b = Inr (p, h2) \<and> p \<noteq> NilPtr \<and> load h2 p = Some (Val m)
        else GetPtr h1 b = Inr (NilPtr, h1))"
proof -
  from iface have al: "alloc h m = (b, h1)"
    by (simp add: MaybeIface_def)
  from deref_alloc(2) [OF al cell] have ne: "b \<noteq> a" and a1: "deref h1 a = Some m"
    by simp_all
  from deref_alloc(1) [OF al] have b1: "deref h1 b = Some m" .
  from deref_alloc(2) [OF al src] have c1: "deref h1 c = Some s"
    by simp
  from ne have ne': "a \<noteq> b"
    by simp
  from typed matches have ta: "type_assert impl T x = Inr x"
    by (simp add: type_assert_def)
  have set_b: "\<exists>h2. Set_at impl T h1 b x = Inr h2
          \<and> deref h2 b = Some \<lparr>Val = x, Valid = True\<rparr> \<and> deref h2 a = Some m"
    using ta b1 a1 ne' by (simp add: Set_at_def Set_def deref_update)
  have nil_b: "\<exists>h2. SetPtr_at h1 b NilPtr = Inr h2
          \<and> deref h2 b = Some (m\<lparr>Valid := False\<rparr>) \<and> deref h2 a = Some m"
    using b1 a1 ne' by (simp add: SetPtr_at_def SetPtr_def deref_update)
  have ptr_b: "\<exists>h2. SetPtr_at h1 b (ValField c) = Inr h2
          \<and> deref h2 b = Some \<lparr>Val = Val s, Valid = True\<rparr> \<and> deref h2 a = Some m"
    using b1 a1 c1 ne' by (simp add: SetPtr_at_def SetPtr_def load_def deref_update)
  have valid_b: "\<exists>h2. SetValid_at h1 b = Inr h2
          \<and> deref h2 b = Some (m\<lparr>Valid := True\<rparr>) \<and> deref h2 a = Some m"
    using b1 a1 ne' by (simp add: SetValid_at_def SetValid_def deref_update)
  have set_a: "\<exists>h2. Set_at impl T h a x = Inr h2 \<and> deref h2 a = Some \<lparr>Val = x, Valid = True\<rparr>"
    using ta cell by (simp add: Set_at_def Set_def deref_update)
  have nil_a: "\<exists>h2. SetPtr_at h a NilPtr = Inr h2 \<and> deref h2 a = Some (m\<lparr>Valid := False\<rparr>)"
    using cell by (simp add: SetPtr_at_def SetPtr_def deref_update)
  have ptr_a: "\<exists>h2. SetPtr_at h a (ValField c) = Inr h2
          \<and> deref h2 a = Some \<lparr>Val = Val s, Valid = True\<rparr>"
    using cell src by (simp add: SetPtr_at_def SetPtr_def load_def deref_update)
  have valid_a: "\<exists>h2. SetValid_at h a = Inr h2 \<and> deref h2 a = Some (m\<lparr>Valid := True\<rparr>)"
    using cell by (simp add: SetValid_at_def SetValid_def deref_update)
  have getptr: "if Valid m
        then \<exists>p h2. GetPtr h1 b = Inr (p, h2) \<and> p \<noteq> NilPtr \<and> load h2 p = Some (Val m)
        else GetPtr h1 b = Inr (NilPtr, h1)"
    using b1 by (simp add: GetPtr_def Pointer_def alloc_def load_def deref_def)
  from ne a1 b1 set_b nil_b ptr_b valid_b set_a nil_a ptr_a valid_a getptr
  show ?thesis
    by (intro conjI)
qed

text \<open>The witness: a present \<^verbatim>\<open>Maybe[int]\<close> at address 0, and an empty \<^verbatim>\<open>Maybe[any]\<close>
  at address 1, whose bridge returns the \<^verbatim>\<open>nil\<close> pointer.\<close>

theorem MaybeIface_copy_witness:
  "deref [Unit (VInt 5), Nothing VNil] 0 = Some (Unit (VInt 5))
   \<and> MaybeIface [Unit (VInt 5), Nothing VNil] (Unit (VInt 5))
       = (2, [Unit (VInt 5), Nothing VNil, Unit (VInt 5)])
   \<and> type_of (VInt 7) = Some TInt
   \<and> (if is_interface TInt then implements (\<lambda>t i. False) TInt TInt else TInt = TInt)
   \<and> deref [Unit (VInt 5), Nothing VNil] 1 = Some (Nothing VNil)
   \<and> (\<exists>h2. Set_at (\<lambda>t i. False) TInt [Unit (VInt 5), Nothing VNil, Unit (VInt 5)] 2 (VInt 7) = Inr h2
         \<and> deref h2 2 = Some (Unit (VInt 7)) \<and> deref h2 0 = Some (Unit (VInt 5)))
   \<and> (\<exists>h2. Set_at (\<lambda>t i. False) TInt [Unit (VInt 5), Nothing VNil] 0 (VInt 7) = Inr h2
         \<and> deref h2 0 = Some (Unit (VInt 7)))
   \<and> (\<exists>p h2. GetPtr [Unit (VInt 5), Nothing VNil, Unit (VInt 5)] 2 = Inr (p, h2)
         \<and> p \<noteq> NilPtr \<and> load h2 p = Some (VInt 5))
   \<and> deref [Unit (VInt 5), Nothing VNil] 1 = Some (Nothing VNil)
   \<and> MaybeIface [Unit (VInt 5), Nothing VNil] (Nothing VNil)
       = (2, [Unit (VInt 5), Nothing VNil, Nothing VNil])
   \<and> type_of (VString ''abc'') = Some TString
   \<and> (if is_interface TAny then implements (\<lambda>t i. False) TString TAny else TString = TAny)
   \<and> (\<exists>h2. Set_at (\<lambda>t i. False) TAny [Unit (VInt 5), Nothing VNil, Nothing VNil] 2 (VString ''abc'') = Inr h2
         \<and> deref h2 2 = Some (Unit (VString ''abc'')) \<and> deref h2 1 = Some (Nothing VNil))
   \<and> \<not> Valid (Nothing VNil)
   \<and> GetPtr [Unit (VInt 5), Nothing VNil, Nothing VNil] 2
       = Inr (NilPtr, [Unit (VInt 5), Nothing VNil, Nothing VNil])"
proof -
  have cell: "deref [Unit (VInt 5), Nothing VNil] 0 = Some (Unit (VInt 5))"
    by (simp add: deref_def)
  have iface: "MaybeIface [Unit (VInt 5), Nothing VNil] (Unit (VInt 5))
       = (2, [Unit (VInt 5), Nothing VNil, Unit (VInt 5)])"
    by (simp add: MaybeIface_def alloc_def)
  have typed: "type_of (VInt 7) = Some TInt"
    by simp
  have matches: "if is_interface TInt then implements (\<lambda>t i. False) TInt TInt else TInt = TInt"
    by simp
  have src: "deref [Unit (VInt 5), Nothing VNil] 1 = Some (Nothing VNil)"
    by (simp add: deref_def)
  have iface': "MaybeIface [Unit (VInt 5), Nothing VNil] (Nothing VNil)
       = (2, [Unit (VInt 5), Nothing VNil, Nothing VNil])"
    by (simp add: MaybeIface_def alloc_def)
  have typed': "type_of (VString ''abc'') = Some TString"
    by simp
  have matches': "if is_interface TAny then implements (\<lambda>t i. False) TString TAny else TString = TAny"
    by simp
  have valid: "Valid (Unit (VInt 5))" and empty: "\<not> Valid (Nothing VNil)"
    by (simp_all add: Unit_def Nothing_def)
  from MaybeIface_copy [OF cell iface typed matches src]
    MaybeIface_copy [OF src iface' typed' matches' cell]
    cell iface typed matches src iface' typed' matches' valid empty
  show ?thesis
    by (simp add: Unit_def)
qed

end
